theory Spec2Isabelle
  imports Complex_Main "HOL-Library.Word" "HOL-Library.Char_ord" "HOL-Library.List_Lexorder"
begin

unbundle bit_operations_syntax

section \<open>JavaScript values as the handlers observe them\<close>

text \<open>
  Strings are lists of code units; the model covers code units below 256, which is
  what \<^typ>\<open>char\<close> holds. Numbers that arrive in JSON are finite, so they are rationals
  here (every finite double is one); \<open>parseFloat\<close> can also produce \<open>NaN\<close> and the
  infinities, hence \<open>jsnum\<close>. An array, object or function value is only ever
  tested for truthiness (always true), for \<open>typeof\<close> and converted by \<open>String()\<close>;
  \<open>JObject\<close> carries what that conversion gives, \<open>None\<close> when it throws a
  \<open>TypeError\<close>, as it does for the JSON value \<^verbatim>\<open>{"toString": 1}\<close>.
\<close>

datatype jsval =
  JUndefined | JNull | JBool bool | JNum rat | JStr string | JObject "string option"

datatype jsnum = NaN | NegInf | Fin rat | PosInf

datatype exn = SyntaxError | TypeError

text \<open>
  The platform functions the handlers call and this development does not look inside:
  number rendering, \<open>parseFloat\<close> (on the string its argument is coerced to),
  \<open>new RegExp(p).test(s)\<close> for a form author's pattern (\<open>None\<close> when the constructor
  throws on the pattern), \<open>new Date(ms).toISOString()\<close>, taken on the timestamps
  the handlers store, where it does not throw, and \<open>to_double\<close>, the rounding of an
  exact result to the double the arithmetic returns.
\<close>

record js_builtins =
  numberToString :: "rat \<Rightarrow> string"
  parseFloat :: "string \<Rightarrow> jsnum"
  regExpTest :: "string \<Rightarrow> string \<Rightarrow> bool option"
  toISOString :: "int \<Rightarrow> string"
  to_double :: "rat \<Rightarrow> rat"

definition dquote :: char where
  "dquote = CHR 0x22"

fun truthy :: "jsval \<Rightarrow> bool" where
  "truthy JUndefined = False"
| "truthy JNull = False"
| "truthy (JBool b) = b"
| "truthy (JNum r) = (r \<noteq> 0)"
| "truthy (JStr s) = (s \<noteq> [])"
| "truthy (JObject s) = True"

text \<open>\<open>String(v)\<close>, also the coercion inside \<open>RegExp.test\<close> and \<open>parseFloat\<close>.\<close>

fun toStr :: "js_builtins \<Rightarrow> jsval \<Rightarrow> exn + string" where
  "toStr B JUndefined = Inr ''undefined''"
| "toStr B JNull = Inr ''null''"
| "toStr B (JBool b) = Inr (if b then ''true'' else ''false'')"
| "toStr B (JNum r) = Inr (numberToString B r)"
| "toStr B (JStr s) = Inr s"
| "toStr B (JObject None) = Inl TypeError"
| "toStr B (JObject (Some s)) = Inr s"


text \<open>\<open>a || b\<close> on an optional string: the left operand unless it is missing or empty.\<close>

fun str_or :: "string option \<Rightarrow> string \<Rightarrow> string" where
  "str_or None d = d"
| "str_or (Some s) d = (if s = [] then d else s)"


fun jsnum_lt :: "jsnum \<Rightarrow> rat \<Rightarrow> bool" where
  "jsnum_lt NaN m = False"
| "jsnum_lt NegInf m = True"
| "jsnum_lt (Fin r) m = (r < m)"
| "jsnum_lt PosInf m = False"

fun jsnum_gt :: "jsnum \<Rightarrow> rat \<Rightarrow> bool" where
  "jsnum_gt NaN m = False"
| "jsnum_gt NegInf m = False"
| "jsnum_gt (Fin r) m = (r > m)"
| "jsnum_gt PosInf m = True"

section \<open>The two regular expression literals of the validator\<close>

text \<open>
  A small matcher by derivatives, enough to write the literals of \<open>validateField\<close> as
  they stand: character classes, sequence and \<open>+\<close>. Both literals are anchored at
  \<open>^\<close> and \<open>$\<close>, so \<open>test\<close> is a match of the whole string.
\<close>

datatype rx = Void | Eps | Cls "char \<Rightarrow> bool" | Cat rx rx | Alt rx rx | Star rx

fun nullable :: "rx \<Rightarrow> bool" where
  "nullable Void = False"
| "nullable Eps = True"
| "nullable (Cls p) = False"
| "nullable (Cat r s) = (nullable r \<and> nullable s)"
| "nullable (Alt r s) = (nullable r \<or> nullable s)"
| "nullable (Star r) = True"

fun deriv :: "char \<Rightarrow> rx \<Rightarrow> rx" where
  "deriv c Void = Void"
| "deriv c Eps = Void"
| "deriv c (Cls p) = (if p c then Eps else Void)"
| "deriv c (Cat r s) =
     (if nullable r then Alt (Cat (deriv c r) s) (deriv c s) else Cat (deriv c r) s)"
| "deriv c (Alt r s) = Alt (deriv c r) (deriv c s)"
| "deriv c (Star r) = Cat (deriv c r) (Star r)"

fun rx_test :: "rx \<Rightarrow> string \<Rightarrow> bool" where
  "rx_test r [] = nullable r"
| "rx_test r (c # cs) = rx_test (deriv c r) cs"

definition Plus :: "rx \<Rightarrow> rx" where
  "Plus r = Cat r (Star r)"

text \<open>\<open>\s\<close> and \<open>\d\<close> on code units below 256.\<close>

definition is_space :: "char \<Rightarrow> bool" where
  "is_space c = (of_char c \<in> {9, 10, 11, 12, 13, 32, 160 :: nat})"

definition is_digit :: "char \<Rightarrow> bool" where
  "is_digit c = (48 \<le> (of_char c :: nat) \<and> (of_char c :: nat) \<le> 57)"

text \<open>\<^verbatim>\<open>/^[^\s@]+@[^\s@]+\.[^\s@]+$/\<close>\<close>

definition not_space_at :: "char \<Rightarrow> bool" where
  "not_space_at c = (\<not> is_space c \<and> c \<noteq> CHR ''@'')"

definition emailRegex :: rx where
  "emailRegex =
     Cat (Plus (Cls not_space_at))
       (Cat (Cls (\<lambda>c. c = CHR ''@''))
         (Cat (Plus (Cls not_space_at))
           (Cat (Cls (\<lambda>c. c = CHR ''.'')) (Plus (Cls not_space_at)))))"

text \<open>\<^verbatim>\<open>/^[\d\s\-+()]+$/\<close>\<close>

definition phone_char :: "char \<Rightarrow> bool" where
  "phone_char c = (is_digit c \<or> is_space c \<or> c \<in> {CHR ''-'', CHR ''+'', CHR ''('', CHR '')''})"

definition phoneRegex :: rx where
  "phoneRegex = Plus (Cls phone_char)"

section \<open>Forms and submissions\<close>

datatype FieldType =
  FT_text | FT_email | FT_phone | FT_number | FT_textarea | FT_select | FT_radio
  | FT_checkbox | FT_date | FT_time | FT_file | FT_rating | FT_signature | FT_hidden

record FieldValidation =
  v_min :: "rat option"
  v_max :: "rat option"
  minLength :: "int option"
  maxLength :: "int option"
  v_pattern :: "string option"
  customMessage :: "string option"

datatype cl_action = Show | Hide | Require
datatype cl_operator = Equals | Not_equals | Contains | Greater_than | Less_than
datatype cl_logic = And | Or

record ConditionalLogic =
  cl_act :: cl_action
  cl_rules :: "(string \<times> cl_operator \<times> string) list"
  cl_log :: cl_logic

record FormField =
  field_id :: string
  field_type :: FieldType
  field_label :: string
  placeholder :: "string option"
  required :: bool
  validation :: "FieldValidation option"
  options :: "string list option"
  conditionalLogic :: "ConditionalLogic option"
  order :: rat

record FormSettings =
  submitButton :: string
  successMessage :: string
  redirectUrl :: "string option"
  notifyEmail :: "string option"
  webhookUrl :: "string option"
  captcha :: bool
  onePerUser :: bool
  closedMessage :: "string option"
  closeDate :: "int option"

record Form =
  form_id :: string
  form_name :: string
  description :: "string option"
  form_fields :: "FormField list"
  settings :: FormSettings
  createdAt :: int
  updatedAt :: int
  published :: bool
  submissions :: int

text \<open>
  The properties every parsed JSON object inherits from \<open>Object.prototype\<close>: its
  methods, which are functions, and \<open>__proto__\<close>, which reads as the prototype
  object itself. Each is carried with what \<open>String()\<close> gives for it.
\<close>

definition prototype_methods :: "string list" where
  "prototype_methods =
     [''__defineGetter__'', ''__defineSetter__'', ''hasOwnProperty'', ''__lookupGetter__'',
      ''__lookupSetter__'', ''isPrototypeOf'', ''propertyIsEnumerable'', ''toString'',
      ''valueOf'', ''toLocaleString'']"

definition object_prototype :: "string \<rightharpoonup> jsval" where
  "object_prototype k =
     (if k = ''__proto__'' then Some (JObject (Some ''[object Object]''))
      else if k = ''constructor'' then Some (JObject (Some ''function Object() { [native code] }''))
      else if k \<in> set prototype_methods
      then Some (JObject (Some (''function '' @ k @ ''() { [native code] }'')))
      else None)"

text \<open>
  A parsed JSON request body: \<open>null\<close> or an object whose own properties are the
  map. Reading a property of \<open>null\<close> throws; reading \<open>body[k]\<close> of an object gives
  the own property, else the inherited one, else \<open>undefined\<close>.
\<close>

datatype json_body = JsonNull | JsonObject "string \<rightharpoonup> jsval"

fun prop_get :: "json_body \<Rightarrow> string \<Rightarrow> exn + jsval" where
  "prop_get JsonNull k = Inl TypeError"
| "prop_get (JsonObject m) k =
     Inr (case m k of
            Some v \<Rightarrow> v
          | None \<Rightarrow> (case object_prototype k of Some v \<Rightarrow> v | None \<Rightarrow> JUndefined))"

record Metadata =
  ip :: "string option"
  userAgent :: "string option"
  referrer :: "string option"
  country :: "string option"

record Submission =
  sub_id :: string
  sub_formId :: string
  sub_data :: json_body
  sub_metadata :: Metadata
  sub_createdAt :: int

section \<open>\<open>validateField\<close>\<close>

definition validate_string ::
  "js_builtins \<Rightarrow> FormField \<Rightarrow> FieldValidation \<Rightarrow> string \<Rightarrow> exn + string option" where
  "validate_string B field v s =
     (if (case minLength v of None \<Rightarrow> False | Some n \<Rightarrow> n \<noteq> 0 \<and> int (length s) < n)
      then Inr (Some (str_or (customMessage v)
             (field_label field @ '' must be at least ''
                @ numberToString B (of_int (the (minLength v))) @ '' characters'')))
      else if (case maxLength v of None \<Rightarrow> False | Some n \<Rightarrow> n \<noteq> 0 \<and> int (length s) > n)
      then Inr (Some (str_or (customMessage v)
             (field_label field @ '' must be at most ''
                @ numberToString B (of_int (the (maxLength v))) @ '' characters'')))
      else (case v_pattern v of
              None \<Rightarrow> Inr None
            | Some p \<Rightarrow>
                if p = [] then Inr None
                else (case regExpTest B p s of
                        None \<Rightarrow> Inl SyntaxError
                      | Some True \<Rightarrow> Inr None
                      | Some False \<Rightarrow>
                          Inr (Some (str_or (customMessage v)
                                 (field_label field @ '' format is invalid''))))))"

text \<open>The branch for \<open>type === 'number'\<close>, after \<open>parseFloat\<close> has coerced the value.\<close>

definition validate_number ::
  "js_builtins \<Rightarrow> FormField \<Rightarrow> FieldValidation \<Rightarrow> string \<Rightarrow> string option" where
  "validate_number B field v s =
     (let num = parseFloat B s in
      if num = NaN then Some (field_label field @ '' must be a number'')
      else if (case v_min v of None \<Rightarrow> False | Some m \<Rightarrow> jsnum_lt num m)
      then Some (str_or (customMessage v)
             (field_label field @ '' must be at least '' @ numberToString B (the (v_min v))))
      else if (case v_max v of None \<Rightarrow> False | Some m \<Rightarrow> jsnum_gt num m)
      then Some (str_or (customMessage v)
             (field_label field @ '' must be at most '' @ numberToString B (the (v_max v))))
      else None)"

text \<open>
  The four \<open>if\<close> blocks of \<open>validateField\<close> in turn: each returns an error message,
  throws, or falls through (\<open>Inr None\<close>) to the next.
\<close>

definition and_then :: "exn + string option \<Rightarrow> exn + string option \<Rightarrow> exn + string option" where
  "and_then a b = (case a of Inr None \<Rightarrow> b | _ \<Rightarrow> a)"

definition check_email ::
  "js_builtins \<Rightarrow> FormField \<Rightarrow> FieldValidation \<Rightarrow> jsval \<Rightarrow> exn + string option" where
  "check_email B field v x =
     (if field_type field = FT_email
      then (case toStr B x of
              Inl e \<Rightarrow> Inl e
            | Inr s \<Rightarrow>
                if \<not> rx_test emailRegex s
                then Inr (Some (str_or (customMessage v)
                       (field_label field @ '' must be a valid email'')))
                else Inr None)
      else Inr None)"

definition check_phone ::
  "js_builtins \<Rightarrow> FormField \<Rightarrow> FieldValidation \<Rightarrow> jsval \<Rightarrow> exn + string option" where
  "check_phone B field v x =
     (if field_type field = FT_phone
      then (case toStr B x of
              Inl e \<Rightarrow> Inl e
            | Inr s \<Rightarrow>
                if \<not> rx_test phoneRegex s
                then Inr (Some (str_or (customMessage v)
                       (field_label field @ '' must be a valid phone number'')))
                else Inr None)
      else Inr None)"

definition check_number ::
  "js_builtins \<Rightarrow> FormField \<Rightarrow> FieldValidation \<Rightarrow> jsval \<Rightarrow> exn + string option" where
  "check_number B field v x =
     (if field_type field = FT_number
      then (case toStr B x of Inl e \<Rightarrow> Inl e | Inr s \<Rightarrow> Inr (validate_number B field v s))
      else Inr None)"

definition validateField :: "js_builtins \<Rightarrow> FormField \<Rightarrow> jsval \<Rightarrow> exn + string option" where
  "validateField B field x =
     (case validation field of
        None \<Rightarrow> Inr None
      | Some v \<Rightarrow>
          and_then (check_email B field v x)
            (and_then (check_phone B field v x)
              (and_then (check_number B field v x)
                (case x of JStr s \<Rightarrow> validate_string B field v s | _ \<Rightarrow> Inr None))))"

section \<open>The form store and the submit handler\<close>

text \<open>
  The \<open>FORMS\<close> namespace holds forms under \<open>form:<id>\<close> and submissions under
  \<open>submission:<formId>:<subId>\<close>. Submissions are an association list from keys
  to values; \<open>list\<close> returns the keys under a prefix in lexicographic order, each
  once. Expiry and the paging of long listings are not modelled. \<open>outbox\<close> records
  the webhook requests the handler attempts: URL, form name and submission.
\<close>

record store =
  kv_forms :: "string \<rightharpoonup> Form"
  kv_submissions :: "(string \<times> Submission) list"
  outbox :: "(string \<times> string \<times> Submission) list"

fun kv_put :: "string \<Rightarrow> 'v \<Rightarrow> (string \<times> 'v) list \<Rightarrow> (string \<times> 'v) list" where
  "kv_put k v [] = [(k, v)]"
| "kv_put k v ((k', v') # kvs) = (if k' = k then (k, v) # kvs else (k', v') # kv_put k v kvs)"


text \<open>
  What one request brings: the body (\<open>None\<close> when it is not JSON, so that
  \<open>c.req.json()\<close> throws) and the headers the handler copies.
\<close>

record request =
  req_body :: "json_body option"
  req_ip :: "string option"
  req_userAgent :: "string option"
  req_referer :: "string option"
  req_country :: "string option"

datatype response =
  Json_error nat string
  | Submit_ok string string
  | Redirect string
  | Csv string string
  | Server_error exn

datatype check = Passed | Rejected string | Threw exn

definition opt_truthy :: "string option \<Rightarrow> bool" where
  "opt_truthy s = (case s of None \<Rightarrow> False | Some u \<Rightarrow> u \<noteq> [])"

text \<open>The body of the loop over \<open>form.fields\<close> in the submit handler.\<close>

definition check_field :: "js_builtins \<Rightarrow> json_body \<Rightarrow> FormField \<Rightarrow> check" where
  "check_field B body f =
     (case prop_get body (field_id f) of
        Inl e \<Rightarrow> Threw e
      | Inr x \<Rightarrow>
          if required f \<and> \<not> truthy x
          then Rejected (''Field '' @ [dquote] @ field_label f @ [dquote] @ '' is required'')
          else if truthy x
          then (case validateField B f x of
                  Inl e \<Rightarrow> Threw e
                | Inr None \<Rightarrow> Passed
                | Inr (Some err) \<Rightarrow> if err \<noteq> [] then Rejected err else Passed)
          else Passed)"

fun validate_fields :: "js_builtins \<Rightarrow> json_body \<Rightarrow> FormField list \<Rightarrow> check" where
  "validate_fields B body [] = Passed"
| "validate_fields B body (f # fs) =
     (case check_field B body f of
        Passed \<Rightarrow> validate_fields B body fs
      | Rejected msg \<Rightarrow> Rejected msg
      | Threw e \<Rightarrow> Threw e)"

definition is_closed :: "Form \<Rightarrow> int \<Rightarrow> bool" where
  "is_closed form now =
     (case closeDate (settings form) of None \<Rightarrow> False | Some d \<Rightarrow> d \<noteq> 0 \<and> now > d)"

definition store_submission :: "store \<Rightarrow> string \<Rightarrow> Form \<Rightarrow> Submission \<Rightarrow> store" where
  "store_submission st ident form sub =
     (let st1 = st\<lparr>kv_submissions :=
                  kv_put (''submission:'' @ ident @ '':'' @ sub_id sub) sub (kv_submissions st)\<rparr>;
          form' = form\<lparr>submissions := submissions form + 1\<rparr>;
          st2 = st1\<lparr>kv_forms := (kv_forms st1)(''form:'' @ form_id form' \<mapsto> form')\<rparr>
      in if opt_truthy (webhookUrl (settings form'))
         then st2\<lparr>outbox := outbox st2 @ [(the (webhookUrl (settings form')), form_name form', sub)]\<rparr>
         else st2)"

text \<open>
  \<open>POST /forms/:id/submit\<close>. \<open>now\<close> is \<open>Date.now()\<close> and \<open>uuid\<close> is
  \<open>crypto.randomUUID()\<close>.
\<close>

definition submit ::
  "js_builtins \<Rightarrow> store \<Rightarrow> string \<Rightarrow> request \<Rightarrow> int \<Rightarrow> string \<Rightarrow> store \<times> response" where
  "submit B st ident req now uuid =
     (case kv_forms st (''form:'' @ ident) of
        None \<Rightarrow> (st, Json_error 404 ''Form not found'')
      | Some form \<Rightarrow>
          if \<not> published form then (st, Json_error 400 ''Form is not accepting submissions'')
          else if is_closed form now
          then (st, Json_error 400 (str_or (closedMessage (settings form)) ''Form is closed''))
          else (case req_body req of
                  None \<Rightarrow> (st, Server_error SyntaxError)
                | Some body \<Rightarrow>
                    (case validate_fields B body (form_fields form) of
                       Threw e \<Rightarrow> (st, Server_error e)
                     | Rejected msg \<Rightarrow> (st, Json_error 400 msg)
                     | Passed \<Rightarrow>
                         (let sub = \<lparr>sub_id = uuid, sub_formId = ident, sub_data = body,
                                     sub_metadata = \<lparr>ip = req_ip req, userAgent = req_userAgent req,
                                       referrer = req_referer req, country = req_country req\<rparr>,
                                     sub_createdAt = now\<rparr>
                          in (store_submission st ident form sub,
                              if opt_truthy (redirectUrl (settings form))
                              then Redirect (the (redirectUrl (settings form)))
                              else Submit_ok (successMessage (settings form)) uuid)))))"

section \<open>CSV export\<close>











section \<open>The analytics collector\<close>

datatype InteractionType = Focus | Blur | Input | Change | Error

record FieldInteraction =
  i_fieldId :: string
  i_type :: InteractionType
  i_timestamp :: int
  i_value :: "string option"
  errorMessage :: "string option"

datatype DeviceType = Mobile | Tablet | Desktop

record Device =
  dev_type :: DeviceType
  browser :: string
  os :: string
  screenWidth :: int
  screenHeight :: int

record Geo =
  geo_country :: "string option"
  region :: "string option"
  city :: "string option"

record FormSession =
  sessionId :: string
  s_formId :: string
  s_variant :: "string option"
  started :: int
  completed :: "int option"
  submitted :: bool
  interactions :: "FieldInteraction list"
  device :: Device
  geo :: Geo
  s_referrer :: "string option"
  utmParams :: "(string \<rightharpoonup> string) option"

datatype TestStatus = Draft | Running | Paused | Completed

record Variant =
  var_id :: string
  var_name :: string
  weight :: int
  changes :: "string \<rightharpoonup> jsval"

record ABTest =
  test_id :: string
  test_formId :: string
  test_name :: string
  variants :: "Variant list"
  startDate :: int
  endDate :: "int option"
  status :: TestStatus
  winningVariant :: "string option"

text \<open>
  The analytics namespace, one map per kind of value the code stores: counters
  (decimal text in the source), \<open>{sum, count}\<close> averages, per-field error tables,
  persisted sessions and A/B test definitions. Every map is keyed by the full key.
\<close>

record analytics_kv =
  counters :: "string \<rightharpoonup> int"
  averages :: "string \<rightharpoonup> rat \<times> int"
  error_tables :: "string \<rightharpoonup> (string \<rightharpoonup> int)"
  stored_sessions :: "string \<rightharpoonup> FormSession"
  abtests :: "string \<rightharpoonup> ABTest"

record collector =
  kv :: analytics_kv
  sessions :: "string \<rightharpoonup> FormSession"

definition getDateKey :: "js_builtins \<Rightarrow> int \<Rightarrow> string" where
  "getDateKey B now = takeWhile (\<lambda>c. c \<noteq> CHR ''T'') (toISOString B now)"

definition incrementCounter :: "string \<Rightarrow> collector \<Rightarrow> collector" where
  "incrementCounter key st =
     st\<lparr>kv := (kv st)\<lparr>counters := (counters (kv st))(''analytics:'' @ key \<mapsto>
        (case counters (kv st) (''analytics:'' @ key) of None \<Rightarrow> 1 | Some n \<Rightarrow> n + 1))\<rparr>\<rparr>"

definition getCounter :: "analytics_kv \<Rightarrow> string \<Rightarrow> int" where
  "getCounter k key = (case counters k (''analytics:'' @ key) of None \<Rightarrow> 0 | Some n \<Rightarrow> n)"

definition addToAverage :: "string \<Rightarrow> rat \<Rightarrow> collector \<Rightarrow> collector" where
  "addToAverage key x st =
     st\<lparr>kv := (kv st)\<lparr>averages := (averages (kv st))(''analytics:'' @ key \<mapsto>
        (case averages (kv st) (''analytics:'' @ key) of
           None \<Rightarrow> (x, 1)
         | Some (acc, n) \<Rightarrow> (acc + x, n + 1)))\<rparr>\<rparr>"

definition getAverage :: "analytics_kv \<Rightarrow> string \<Rightarrow> rat" where
  "getAverage k key =
     (case averages k (''analytics:'' @ key) of
        None \<Rightarrow> 0
      | Some (acc, n) \<Rightarrow> if n > 0 then acc / of_int n else 0)"

definition trackError :: "string \<Rightarrow> string \<Rightarrow> string \<Rightarrow> collector \<Rightarrow> collector" where
  "trackError formId fieldId message st =
     (let key = ''analytics:errors:'' @ formId @ '':'' @ fieldId;
          errors = (case error_tables (kv st) key of None \<Rightarrow> Map.empty | Some t \<Rightarrow> t)
      in st\<lparr>kv := (kv st)\<lparr>error_tables := (error_tables (kv st))(key \<mapsto>
            errors(message \<mapsto> (case errors message of None \<Rightarrow> 1 | Some n \<Rightarrow> n + 1)))\<rparr>\<rparr>)"

definition storeSession :: "FormSession \<Rightarrow> collector \<Rightarrow> collector" where
  "storeSession session st =
     st\<lparr>kv := (kv st)\<lparr>stored_sessions := (stored_sessions (kv st))
        (''analytics:session:'' @ s_formId session @ '':'' @ sessionId session \<mapsto> session)\<rparr>\<rparr>"

definition startSession ::
  "js_builtins \<Rightarrow> int \<Rightarrow> collector \<Rightarrow> string \<Rightarrow> string \<Rightarrow> Device \<Rightarrow> Geo \<Rightarrow> string option
     \<Rightarrow> (string \<rightharpoonup> string) option \<Rightarrow> string option \<Rightarrow> collector" where
  "startSession B now st formId sid dev g ref utm var =
     (let session = \<lparr>sessionId = sid, s_formId = formId, s_variant = var, started = now,
                      completed = None, submitted = False, interactions = [], device = dev,
                      geo = g, s_referrer = ref, utmParams = utm\<rparr>;
          st1 = st\<lparr>sessions := (sessions st)(sid \<mapsto> session)\<rparr>;
          st2 = incrementCounter (''views:'' @ formId @ '':'' @ getDateKey B now) st1;
          st3 = incrementCounter (''views:'' @ formId @ '':total'') st2;
          st4 = incrementCounter (''device:'' @ formId @ '':'' @
                  (case dev_type dev of Mobile \<Rightarrow> ''mobile'' | Tablet \<Rightarrow> ''tablet''
                   | Desktop \<Rightarrow> ''desktop'')) st3
      in if opt_truthy (geo_country g)
         then incrementCounter (''country:'' @ formId @ '':'' @ the (geo_country g)) st4
         else st4)"

definition trackInteraction :: "collector \<Rightarrow> string \<Rightarrow> FieldInteraction \<Rightarrow> collector" where
  "trackInteraction st sid interaction =
     (case sessions st sid of
        None \<Rightarrow> st
      | Some session \<Rightarrow>
          (let session' = session\<lparr>interactions := interactions session @ [interaction]\<rparr>;
               st1 = st\<lparr>sessions := (sessions st)(sid \<mapsto> session')\<rparr>;
               fieldKey = ''field:'' @ s_formId session' @ '':'' @ i_fieldId interaction
           in case i_type interaction of
                Focus \<Rightarrow> incrementCounter (fieldKey @ '':focuses'') st1
              | Blur \<Rightarrow>
                  (case find (\<lambda>i. i_fieldId i = i_fieldId interaction \<and> i_type i = Focus)
                          (rev (interactions session')) of
                     None \<Rightarrow> st1
                   | Some focusEvent \<Rightarrow>
                       addToAverage (fieldKey @ '':avgTime'')
                         (of_int (i_timestamp interaction - i_timestamp focusEvent)) st1)
              | Error \<Rightarrow>
                  (let st2 = incrementCounter (fieldKey @ '':errors'') st1
                   in if opt_truthy (errorMessage interaction)
                      then trackError (s_formId session') (i_fieldId interaction)
                             (the (errorMessage interaction)) st2
                      else st2)
              | _ \<Rightarrow> st1))"

definition markStarted :: "js_builtins \<Rightarrow> int \<Rightarrow> collector \<Rightarrow> string \<Rightarrow> collector" where
  "markStarted B now st sid =
     (case sessions st sid of
        None \<Rightarrow> st
      | Some session \<Rightarrow>
          incrementCounter (''starts:'' @ s_formId session @ '':total'')
            (incrementCounter (''starts:'' @ s_formId session @ '':'' @ getDateKey B now) st))"

definition markCompleted :: "js_builtins \<Rightarrow> int \<Rightarrow> collector \<Rightarrow> string \<Rightarrow> collector" where
  "markCompleted B now st sid =
     (case sessions st sid of
        None \<Rightarrow> st
      | Some session \<Rightarrow>
          (let session' = session\<lparr>completed := Some now\<rparr>;
               st1 = st\<lparr>sessions := (sessions st)(sid \<mapsto> session')\<rparr>;
               st2 = incrementCounter (''completions:'' @ s_formId session' @ '':'' @ getDateKey B now) st1;
               st3 = incrementCounter (''completions:'' @ s_formId session' @ '':total'') st2;
               completionTime = of_int (now - started session') / 1000;
               st4 = addToAverage (''avgTime:'' @ s_formId session') completionTime st3
           in if opt_truthy (s_variant session')
              then addToAverage (''variant:'' @ s_formId session' @ '':'' @ the (s_variant session')
                                   @ '':avgTime'') completionTime
                     (incrementCounter (''variant:'' @ s_formId session' @ '':''
                                          @ the (s_variant session') @ '':completions'') st4)
              else st4))"

definition markSubmitted :: "js_builtins \<Rightarrow> int \<Rightarrow> collector \<Rightarrow> string \<Rightarrow> collector" where
  "markSubmitted B now st sid =
     (case sessions st sid of
        None \<Rightarrow> st
      | Some session \<Rightarrow>
          (let session' = session\<lparr>submitted := True\<rparr>;
               st1 = st\<lparr>sessions := (sessions st)(sid \<mapsto> session')\<rparr>;
               st2 = incrementCounter (''submissions:'' @ s_formId session' @ '':'' @ getDateKey B now) st1;
               st3 = incrementCounter (''submissions:'' @ s_formId session' @ '':total'') st2;
               st4 = (if opt_truthy (s_variant session')
                      then incrementCounter (''variant:'' @ s_formId session' @ '':''
                                               @ the (s_variant session') @ '':submissions'') st3
                      else st3);
               st5 = storeSession session' st4
           in st5\<lparr>sessions := (sessions st5)(sid := None)\<rparr>))"

definition trackDropOff :: "js_builtins \<Rightarrow> int \<Rightarrow> collector \<Rightarrow> string \<Rightarrow> string \<Rightarrow> collector" where
  "trackDropOff B now st sid lastFieldId =
     (case sessions st sid of
        None \<Rightarrow> st
      | Some session \<Rightarrow>
          (let st1 = incrementCounter (''dropoff:'' @ s_formId session @ '':'' @ lastFieldId) st;
               st2 = incrementCounter (''abandoned:'' @ s_formId session @ '':'' @ getDateKey B now) st1
           in st2\<lparr>sessions := (sessions st2)(sid := None)\<rparr>))"

text \<open>
  The totals and the funnel of \<open>getAnalytics\<close>. The other parts of its result (field
  statistics, the daily series, the breakdowns) are computed from other keys and do
  not enter the funnel.
\<close>

record FunnelStep =
  step :: string
  f_count :: int
  dropOff :: int
  rate :: rat

definition getAnalytics_funnel :: "analytics_kv \<Rightarrow> string \<Rightarrow> FunnelStep list" where
  "getAnalytics_funnel k formId =
     (let views = getCounter k (''views:'' @ formId @ '':total'');
          starts = getCounter k (''starts:'' @ formId @ '':total'');
          completions = getCounter k (''completions:'' @ formId @ '':total'');
          subs = getCounter k (''submissions:'' @ formId @ '':total'')
      in [\<lparr>step = ''View'', f_count = views, dropOff = views - starts, rate = 1\<rparr>,
          \<lparr>step = ''Start'', f_count = starts, dropOff = starts - completions,
            rate = (if views > 0 then of_int starts / of_int views else 0)\<rparr>,
          \<lparr>step = ''Complete'', f_count = completions, dropOff = completions - subs,
            rate = (if views > 0 then of_int completions / of_int views else 0)\<rparr>,
          \<lparr>step = ''Submit'', f_count = subs, dropOff = 0,
            rate = (if views > 0 then of_int subs / of_int views else 0)\<rparr>])"

section \<open>\<open>ABTestManager\<close>: hashed variant assignment\<close>

text \<open>
  \<open>simpleHash\<close>: \<open>((hash << 5) - hash) + char\<close> followed by \<open>hash & hash\<close> keeps the
  low 32 bits, read as a signed integer; the result is its absolute value.
\<close>

definition hash_step :: "32 word \<Rightarrow> char \<Rightarrow> 32 word" where
  "hash_step h c = (push_bit 5 h - h) + of_nat (of_char c)"

definition simpleHash :: "string \<Rightarrow> int" where
  "simpleHash str = \<bar>sint (foldl hash_step 0 str)\<bar>"

text \<open>
  The remainder operator on integers: the sign of the dividend, and \<open>NaN\<close> (here
  \<open>None\<close>) for a zero divisor. Variant weights are integers in this model, on which
  the source's double arithmetic is exact.
\<close>

definition js_rem :: "int \<Rightarrow> int \<Rightarrow> int option" where
  "js_rem a b = (if b = 0 then None else Some (sgn a * (\<bar>a\<bar> mod \<bar>b\<bar>)))"

text \<open>The loop over the variants; a \<open>NaN\<close> threshold stays \<open>NaN\<close> and is never below 0.\<close>

fun walk_variants :: "int option \<Rightarrow> Variant list \<Rightarrow> string option" where
  "walk_variants threshold [] = None"
| "walk_variants threshold (v # vs) =
     (case threshold of
        None \<Rightarrow> walk_variants None vs
      | Some t \<Rightarrow> if t - weight v < 0 then Some (var_id v) else walk_variants (Some (t - weight v)) vs)"

definition getVariant :: "analytics_kv \<Rightarrow> string \<Rightarrow> string \<Rightarrow> exn + string option" where
  "getVariant k formId sid =
     (case abtests k (''abtest:'' @ formId) of
        None \<Rightarrow> Inr None
      | Some test \<Rightarrow>
          if status test \<noteq> Running then Inr None
          else (let hash = simpleHash sid;
                    totalWeight = foldl (\<lambda>acc v. acc + weight v) 0 (variants test);
                    threshold = js_rem hash totalWeight
                in case walk_variants threshold (variants test) of
                     Some vid \<Rightarrow> Inr (Some vid)
                   | None \<Rightarrow>
                       (case variants test of
                          [] \<Rightarrow> Inl TypeError
                        | v # vs \<Rightarrow> Inr (Some (var_id v)))))"

section \<open>\<open>FormABTestManager.getResults\<close>\<close>

record StoredVariant =
  sv_id :: string
  sv_name :: string
  sv_config :: "string \<rightharpoonup> jsval"
  traffic :: rat
  sv_views :: int
  sv_conversions :: int
  sv_revenue :: rat

datatype RunStatus = Run_running | Run_completed | Run_stopped

record StoredTest =
  st_id :: string
  st_formId :: string
  st_name :: string
  st_variants :: "StoredVariant list"
  startedAt :: int
  st_status :: RunStatus

record ResultVariant =
  r_id :: string
  r_name :: string
  r_views :: int
  r_conversions :: int
  conversionRate :: rat
  r_revenue :: rat
  isWinner :: bool
  confidence :: rat

record ABTestResult =
  testId :: string
  r_variants :: "ResultVariant list"
  r_startedAt :: int
  r_status :: RunStatus

text \<open>
  The statistics of one variant. \<open>(v.conversions / v.views) * 100\<close> is double
  arithmetic: the quotient is rounded, and so is the product. Views and conversions
  are counts, integers that doubles hold exactly.
\<close>

definition result_of :: "js_builtins \<Rightarrow> StoredVariant \<Rightarrow> ResultVariant" where
  "result_of B v =
     \<lparr>r_id = sv_id v, r_name = sv_name v, r_views = sv_views v, r_conversions = sv_conversions v,
      conversionRate =
        (if sv_views v > 0
         then to_double B (to_double B (of_int (sv_conversions v) / of_int (sv_views v)) * 100)
         else 0),
      r_revenue = sv_revenue v, isWinner = False, confidence = 0\<rparr>"

text \<open>
  \<open>[...variants].sort((a, b) => b.conversionRate - a.conversionRate)\<close>: the copy
  shares its objects with \<open>variants\<close>, so the sort is over positions, and marking
  \<open>sorted[0]\<close> marks that position of \<open>variants\<close>. The sort is stable, and the sign
  of the difference of two doubles is the order of the two doubles.
\<close>

definition sorted_positions :: "ResultVariant list \<Rightarrow> nat list" where
  "sorted_positions vs = sort_key (\<lambda>i. - conversionRate (vs ! i)) [0..<length vs]"

definition mark_winner :: "js_builtins \<Rightarrow> ResultVariant list \<Rightarrow> ResultVariant list" where
  "mark_winner B vs =
     (if vs = [] then vs
      else (let top = hd (sorted_positions vs) in
            if r_views (vs ! top) \<ge> 100 \<and> r_conversions (vs ! top) \<ge> 10
            then vs[top := (vs ! top)\<lparr>isWinner := True,
                     confidence :=
                       min 95 (to_double B (50 + to_double B (of_int (r_views (vs ! top)) / 10)))\<rparr>]
            else vs))"

definition getResults ::
  "js_builtins \<Rightarrow> (string \<rightharpoonup> StoredTest) \<Rightarrow> string \<Rightarrow> ABTestResult option" where
  "getResults B tests tid =
     (case tests (''abtest:'' @ tid) of
        None \<Rightarrow> None
      | Some test \<Rightarrow>
          Some \<lparr>testId = tid, r_variants = mark_winner B (map (result_of B) (st_variants test)),
                r_startedAt = startedAt test, r_status = st_status test\<rparr>)"

section \<open>\<open>CustomerJourneyTracker\<close>\<close>

datatype TouchType = Form_view | Form_submit | Email_open | Page_view | Purchase








section \<open>Reference definitions taken from the specification\<close>




text \<open>
  The winner as the specification words it: a variant that meets the floor and whose
  conversion rate is highest among the variants that meet the floor.
\<close>

definition meets_floor :: "ResultVariant \<Rightarrow> bool" where
  "meets_floor v = (r_views v \<ge> 100 \<and> r_conversions v \<ge> 10)"

definition spec_winner :: "ResultVariant list \<Rightarrow> nat \<Rightarrow> bool" where
  "spec_winner vs i =
     (i < length vs \<and> meets_floor (vs ! i)
      \<and> list_all (\<lambda>w. meets_floor w \<longrightarrow> conversionRate w \<le> conversionRate (vs ! i)) vs)"

section \<open>Derived notions used in the statements\<close>







text \<open>
  The first position holding the highest conversion rate of all variants, and the
  weights of an \<open>ABTest\<close>: their total and the sum before a position.
\<close>

definition top_rated :: "ResultVariant list \<Rightarrow> nat \<Rightarrow> bool" where
  "top_rated vs i =
     (i < length vs
      \<and> list_all (\<lambda>j. conversionRate (vs ! j) \<le> conversionRate (vs ! i)) [0..<length vs]
      \<and> list_all (\<lambda>j. conversionRate (vs ! j) < conversionRate (vs ! i)) [0..<i])"

definition totalWeight :: "ABTest \<Rightarrow> int" where
  "totalWeight test = sum_list (map weight (variants test))"

definition weight_before :: "ABTest \<Rightarrow> nat \<Rightarrow> int" where
  "weight_before test i = sum_list (map weight (take i (variants test)))"

section \<open>Sample data\<close>

text \<open>
  The sample platform renders every number as \<open>0\<close> and rounds nothing; the samples
  render no number but 0 and divide only where the double result is exact.
\<close>

definition sample_builtins :: js_builtins where
  "sample_builtins = \<lparr>numberToString = (\<lambda>r. ''0''), parseFloat = (\<lambda>s. NaN),
     regExpTest = (\<lambda>p s. Some True), toISOString = (\<lambda>t. ''1970-01-01T00:00:00.000Z''),
     to_double = (\<lambda>r. r)\<rparr>"

definition sample_settings :: FormSettings where
  "sample_settings = \<lparr>submitButton = ''Submit'', successMessage = ''Thanks'', redirectUrl = None,
     notifyEmail = None, webhookUrl = None, captcha = False, onePerUser = False,
     closedMessage = None, closeDate = None\<rparr>"

definition no_constraints :: FieldValidation where
  "no_constraints = \<lparr>v_min = None, v_max = None, minLength = None, maxLength = None,
     v_pattern = None, customMessage = None\<rparr>"

definition email_field :: "bool \<Rightarrow> FieldValidation option \<Rightarrow> FormField" where
  "email_field req v = \<lparr>field_id = ''email'', field_type = FT_email, field_label = ''Email'',
     placeholder = None, required = req, validation = v, options = None,
     conditionalLogic = None, order = 1\<rparr>"

definition sample_form :: "bool \<Rightarrow> FormField list \<Rightarrow> Form" where
  "sample_form pub fs = \<lparr>form_id = ''f1'', form_name = ''Contact'', description = None,
     form_fields = fs, settings = sample_settings, createdAt = 0, updatedAt = 0,
     published = pub, submissions = 0\<rparr>"

definition sample_store :: "Form \<Rightarrow> store" where
  "sample_store form = \<lparr>kv_forms = [''form:f1'' \<mapsto> form], kv_submissions = [], outbox = []\<rparr>"

definition sample_request :: "json_body option \<Rightarrow> request" where
  "sample_request b = \<lparr>req_body = b, req_ip = None, req_userAgent = None, req_referer = None,
     req_country = None\<rparr>"




definition empty_kv :: analytics_kv where
  "empty_kv = \<lparr>counters = Map.empty, averages = Map.empty, error_tables = Map.empty,
     stored_sessions = Map.empty, abtests = Map.empty\<rparr>"

definition empty_collector :: collector where
  "empty_collector = \<lparr>kv = empty_kv, sessions = Map.empty\<rparr>"

definition focus_on :: "string \<Rightarrow> int \<Rightarrow> FieldInteraction" where
  "focus_on fid t = \<lparr>i_fieldId = fid, i_type = Focus, i_timestamp = t, i_value = None,
     errorMessage = None\<rparr>"

definition sample_variant :: "string \<Rightarrow> int \<Rightarrow> Variant" where
  "sample_variant i w = \<lparr>var_id = i, var_name = i, weight = w, changes = Map.empty\<rparr>"

definition sample_test :: ABTest where
  "sample_test = \<lparr>test_id = ''t1'', test_formId = ''f1'', test_name = ''Button'',
     variants = [sample_variant ''A'' 50, sample_variant ''B'' 50], startDate = 0,
     endDate = None, status = Running, winningVariant = None\<rparr>"

definition stored_variant :: "string \<Rightarrow> int \<Rightarrow> int \<Rightarrow> StoredVariant" where
  "stored_variant i v c = \<lparr>sv_id = i, sv_name = i, sv_config = Map.empty, traffic = 50,
     sv_views = v, sv_conversions = c, sv_revenue = 0\<rparr>"

definition stored_test :: "StoredVariant list \<Rightarrow> StoredTest" where
  "stored_test vs = \<lparr>st_id = ''t1'', st_formId = ''f1'', st_name = ''Button'',
     st_variants = vs, startedAt = 0, st_status = Run_running\<rparr>"





section \<open>Bounded journey history\<close>






section \<open>Submitting to an unpublished form\<close>

text \<open>
  C2. When the stored form is not published, the submit handler answers 400
  \<open>Form is not accepting submissions\<close> and returns the store as it was: no
  submission is written, the counter is not incremented, no webhook is attempted.
  This holds for every request, whether its body is JSON or not, and for every
  behaviour of the validator's platform functions, since neither is consulted.
\<close>

theorem submit_unpublished:
  "kv_forms st (''form:'' @ ident) = Some form \<Longrightarrow> \<not> published form \<Longrightarrow>
   submit B st ident req now uuid = (st, Json_error 400 ''Form is not accepting submissions'')"
  by (simp add: submit_def)

theorem submit_unpublished_witness:
  "submit sample_builtins (sample_store (sample_form False [email_field True None])) ''f1''
     (sample_request (Some (JsonObject [''email'' \<mapsto> JStr ''a@b.com'']))) 5 ''u1''
   = (sample_store (sample_form False [email_field True None]),
      Json_error 400 ''Form is not accepting submissions'')
   \<and> submit sample_builtins (sample_store (sample_form False [email_field True None])) ''f1''
     (sample_request None) 5 ''u1''
   = (sample_store (sample_form False [email_field True None]),
      Json_error 400 ''Form is not accepting submissions'')"
proof -
  have k: "kv_forms (sample_store (sample_form False [email_field True None])) (''form:'' @ ''f1'')
      = Some (sample_form False [email_field True None])"
    by (simp add: sample_store_def)
  have p: "\<not> published (sample_form False [email_field True None])"
    by (simp add: sample_form_def)
  show ?thesis
    using submit_unpublished [OF k p] by simp
qed

section \<open>The funnel\<close>

text \<open>
  C5. The funnel of \<open>getAnalytics\<close> has the four steps View, Start, Complete and
  Submit, whose counts are the four total counters; for each adjacent pair the count
  of the step minus the count of the next step is the step's \<open>dropOff\<close>, and the
  last step's \<open>dropOff\<close> is 0.
\<close>

theorem funnel_dropOff:
  "length (getAnalytics_funnel k formId) = 4
   \<and> map step (getAnalytics_funnel k formId) = [''View'', ''Start'', ''Complete'', ''Submit'']
   \<and> map f_count (getAnalytics_funnel k formId) =
       [getCounter k (''views:'' @ formId @ '':total''), getCounter k (''starts:'' @ formId @ '':total''),
        getCounter k (''completions:'' @ formId @ '':total''),
        getCounter k (''submissions:'' @ formId @ '':total'')]
   \<and> f_count (getAnalytics_funnel k formId ! 0) - f_count (getAnalytics_funnel k formId ! 1)
       = dropOff (getAnalytics_funnel k formId ! 0)
   \<and> f_count (getAnalytics_funnel k formId ! 1) - f_count (getAnalytics_funnel k formId ! 2)
       = dropOff (getAnalytics_funnel k formId ! 1)
   \<and> f_count (getAnalytics_funnel k formId ! 2) - f_count (getAnalytics_funnel k formId ! 3)
       = dropOff (getAnalytics_funnel k formId ! 2)
   \<and> dropOff (getAnalytics_funnel k formId ! 3) = 0"
  by (simp add: getAnalytics_funnel_def Let_def)

section \<open>Unknown sessions\<close>

text \<open>
  C9. For a session id that is not in the collector's session map, each of
  \<open>trackInteraction\<close>, \<open>markStarted\<close>, \<open>markCompleted\<close>, \<open>markSubmitted\<close> and
  \<open>trackDropOff\<close> returns the collector as it was: the store and the session map
  are unchanged.
\<close>

theorem unknown_session_noop:
  "sessions st sid = None \<Longrightarrow>
   trackInteraction st sid interaction = st
   \<and> markStarted B now st sid = st
   \<and> markCompleted B now st sid = st
   \<and> markSubmitted B now st sid = st
   \<and> trackDropOff B now st sid lastFieldId = st"
  by (simp add: trackInteraction_def markStarted_def markCompleted_def markSubmitted_def
      trackDropOff_def)

theorem unknown_session_noop_witness:
  "trackInteraction empty_collector ''s1'' (focus_on ''email'' 7) = empty_collector
   \<and> markStarted sample_builtins 7 empty_collector ''s1'' = empty_collector
   \<and> markCompleted sample_builtins 7 empty_collector ''s1'' = empty_collector
   \<and> markSubmitted sample_builtins 7 empty_collector ''s1'' = empty_collector
   \<and> trackDropOff sample_builtins 7 empty_collector ''s1'' ''email'' = empty_collector"
proof -
  have "sessions empty_collector ''s1'' = None"
    by (simp add: empty_collector_def)
  then show ?thesis
    by (rule unknown_session_noop)
qed

text \<open>For contrast, the same call on a session that was started does count.\<close>

lemma known_session_counts:
  "getCounter (kv (trackInteraction
      (startSession sample_builtins 7 empty_collector ''f1'' ''s1''
         \<lparr>dev_type = Desktop, browser = ''b'', os = ''o'', screenWidth = 1, screenHeight = 1\<rparr>
         \<lparr>geo_country = None, region = None, city = None\<rparr> None None None)
      ''s1'' (focus_on ''email'' 7))) ''field:f1:email:focuses'' = 1"
  by (simp add: trackInteraction_def startSession_def empty_collector_def empty_kv_def
      incrementCounter_def getCounter_def focus_on_def Let_def opt_truthy_def)

section \<open>Hashed variant assignment\<close>

lemma foldl_weights: "foldl (\<lambda>acc v. acc + weight v) a vs = a + sum_list (map weight vs)"
  by (induction vs arbitrary: a) auto

lemma walk_variants_member:
  "walk_variants t vs = Some x \<Longrightarrow> \<exists>v \<in> set vs. x = var_id v"
  by (induction t vs rule: walk_variants.induct) (auto split: option.splits if_splits)

lemma walk_variants_bucket:
  "\<forall>v \<in> set vs. 0 \<le> weight v \<Longrightarrow> 0 \<le> t \<Longrightarrow> t < sum_list (map weight vs) \<Longrightarrow>
   \<exists>i < length vs. walk_variants (Some t) vs = Some (var_id (vs ! i))
      \<and> sum_list (map weight (take i vs)) \<le> t
      \<and> t < sum_list (map weight (take (Suc i) vs))"
proof (induction vs arbitrary: t)
  case Nil
  then show ?case by simp
next
  case (Cons v vs)
  show ?case
  proof (cases "t - weight v < 0")
    case True
    with Cons.prems show ?thesis by (intro exI [of _ 0]) simp
  next
    case False
    with Cons.prems have "\<exists>i < length vs. walk_variants (Some (t - weight v)) vs = Some (var_id (vs ! i))
      \<and> sum_list (map weight (take i vs)) \<le> t - weight v
      \<and> t - weight v < sum_list (map weight (take (Suc i) vs))"
      by (intro Cons.IH) auto
    then obtain i where i: "i < length vs"
      "walk_variants (Some (t - weight v)) vs = Some (var_id (vs ! i))"
      "sum_list (map weight (take i vs)) \<le> t - weight v"
      "t - weight v < sum_list (map weight (take (Suc i) vs))"
      by blast
    with False show ?thesis by (intro exI [of _ "Suc i"]) simp
  qed
qed

lemma simpleHash_nonneg: "0 \<le> simpleHash s"
  by (simp add: simpleHash_def)

lemma getVariant_frame:
  "abtests k' (''abtest:'' @ formId) = abtests k (''abtest:'' @ formId) \<Longrightarrow>
   getVariant k' formId sid = getVariant k formId sid"
  by (simp add: getVariant_def)

lemma getVariant_member:
  assumes "abtests k (''abtest:'' @ formId) = Some test" "status test = Running" "variants test \<noteq> []"
  shows "\<exists>v \<in> set (variants test). getVariant k formId sid = Inr (Some (var_id v))"
proof (cases "walk_variants (js_rem (simpleHash sid) (foldl (\<lambda>acc v. acc + weight v) 0 (variants test))) (variants test)")
  case None
  with assms show ?thesis
    by (cases "variants test") (auto simp: getVariant_def Let_def)
next
  case (Some x)
  with walk_variants_member [OF Some] assms show ?thesis
    by (auto simp: getVariant_def Let_def)
qed

lemma getVariant_bucket:
  assumes "abtests k (''abtest:'' @ formId) = Some test" "status test = Running"
    "\<forall>v \<in> set (variants test). 0 \<le> weight v" "0 < totalWeight test"
  shows "\<exists>i < length (variants test).
      getVariant k formId sid = Inr (Some (var_id (variants test ! i)))
      \<and> weight_before test i \<le> simpleHash sid mod totalWeight test
      \<and> simpleHash sid mod totalWeight test < weight_before test (Suc i)"
proof -
  let ?t = "simpleHash sid mod totalWeight test"
  have r: "js_rem (simpleHash sid) (foldl (\<lambda>acc v. acc + weight v) 0 (variants test)) = Some ?t"
    using assms(4) simpleHash_nonneg [of sid]
    by (cases "simpleHash sid = 0") (auto simp: js_rem_def foldl_weights totalWeight_def sgn_if)
  have "0 \<le> ?t" "?t < sum_list (map weight (variants test))"
    using assms(4) by (simp_all add: totalWeight_def)
  from walk_variants_bucket [OF assms(3) this]
  obtain i where i: "i < length (variants test)"
    "walk_variants (Some ?t) (variants test) = Some (var_id (variants test ! i))"
    "sum_list (map weight (take i (variants test))) \<le> ?t"
    "?t < sum_list (map weight (take (Suc i) (variants test)))"
    by blast
  have "getVariant k formId sid = Inr (Some (var_id (variants test ! i)))"
    using assms(1,2) r i(2) by (simp add: getVariant_def Let_def)
  with i show ?thesis
    unfolding weight_before_def by blast
qed

text \<open>
  C1. For a running test stored for the form, \<open>getVariant\<close> depends on the store
  only through that test: a second call against any store that still holds the same
  test gives the same outcome for the same session id. When the test has a variant
  the outcome is the id of one of its variants; when the weights are not negative
  and sum to a positive total, it is the variant whose stretch of the cumulative
  weights, in definition order, holds the hash of the session id modulo the total.
\<close>

theorem getVariant_deterministic:
  assumes "abtests k (''abtest:'' @ formId) = Some test" and "status test = Running"
  shows "(abtests k' (''abtest:'' @ formId) = Some test \<longrightarrow>
            getVariant k' formId sid = getVariant k formId sid)
    \<and> (variants test \<noteq> [] \<longrightarrow>
         (\<exists>v \<in> set (variants test). getVariant k formId sid = Inr (Some (var_id v))))
    \<and> ((\<forall>v \<in> set (variants test). 0 \<le> weight v) \<and> 0 < totalWeight test \<longrightarrow>
         (\<exists>i < length (variants test).
            getVariant k formId sid = Inr (Some (var_id (variants test ! i)))
            \<and> weight_before test i \<le> simpleHash sid mod totalWeight test
            \<and> simpleHash sid mod totalWeight test < weight_before test (Suc i)))"
  using getVariant_frame [of k' formId k sid] getVariant_member [OF assms] getVariant_bucket [OF assms]
    assms(1)
  by simp

theorem getVariant_deterministic_witness:
  "getVariant (empty_kv\<lparr>abtests := [''abtest:f1'' \<mapsto> sample_test],
                        counters := [''analytics:views:f1:total'' \<mapsto> 3]\<rparr>) ''f1'' ''abc''
     = getVariant (empty_kv\<lparr>abtests := [''abtest:f1'' \<mapsto> sample_test]\<rparr>) ''f1'' ''abc''
   \<and> getVariant (empty_kv\<lparr>abtests := [''abtest:f1'' \<mapsto> sample_test]\<rparr>) ''f1'' ''abc''
     = Inr (Some ''B'')
   \<and> simpleHash ''abc'' mod totalWeight sample_test = 54"
proof -
  let ?k = "empty_kv\<lparr>abtests := [''abtest:f1'' \<mapsto> sample_test]\<rparr>"
  let ?k' = "empty_kv\<lparr>abtests := [''abtest:f1'' \<mapsto> sample_test],
                      counters := [''analytics:views:f1:total'' \<mapsto> 3]\<rparr>"
  have 1: "abtests ?k (''abtest:'' @ ''f1'') = Some sample_test" "status sample_test = Running"
    "abtests ?k' (''abtest:'' @ ''f1'') = Some sample_test"
    by (simp_all add: sample_test_def)
  have h: "simpleHash ''abc'' mod totalWeight sample_test = 54"
    by (simp add: simpleHash_def hash_step_def totalWeight_def sample_test_def sample_variant_def)
  have v: "getVariant ?k ''f1'' ''abc'' = Inr (Some ''B'')"
    by (simp add: getVariant_def sample_test_def sample_variant_def simpleHash_def hash_step_def
        js_rem_def Let_def)
  from getVariant_deterministic [OF 1(1,2), of ?k' "''abc''"] 1(3) h v
  show ?thesis by simp
qed

section \<open>CSV quoting\<close>





















section \<open>The layout of the export\<close>




section \<open>Falsy values in the submit loop\<close>







section \<open>The email rule\<close>



text \<open>Without a validation object the validator returns at once, whatever the type.\<close>

lemma validateField_without_validation:
  "validation f = None \<Longrightarrow> validateField B f x = Inr None"
  by (simp add: validateField_def)






text \<open>
  The predecessors matter as the code reads them: an optional email field named
  \<open>constructor\<close> that the body lacks is checked on the inherited function and
  rejected, and a value whose string conversion throws ends the request with 500.
\<close>

lemma inherited_predecessor_rejects:
  "check_field sample_builtins (JsonObject Map.empty)
     ((email_field False (Some no_constraints))\<lparr>field_id := ''constructor''\<rparr>)
   = Rejected ''Email must be a valid email''"
  by (simp add: check_field_def email_field_def object_prototype_def validateField_def
      check_email_def and_then_def no_constraints_def emailRegex_def Plus_def not_space_at_def
      is_space_def)

lemma throwing_predecessor:
  "check_field sample_builtins (JsonObject [''email'' \<mapsto> JObject None])
     (email_field False (Some no_constraints))
   = Threw TypeError"
  by (simp add: check_field_def email_field_def validateField_def check_email_def and_then_def)

section \<open>The winner of \<open>getResults\<close>\<close>

lemma hd_insort_key:
  "hd (insort_key f x ys) = (if ys = [] \<or> f x \<le> f (hd ys) then x else hd ys)"
  by (cases ys) auto

lemma sort_key_Nil_iff: "sort_key f xs = [] \<longleftrightarrow> xs = []"
  by (metis length_sort length_0_conv)

lemma hd_sort_key_first_min:
  "xs \<noteq> [] \<Longrightarrow>
   \<exists>k < length xs. hd (sort_key f xs) = xs ! k
      \<and> (\<forall>j < length xs. f (xs ! k) \<le> f (xs ! j))
      \<and> (\<forall>j < k. f (xs ! k) < f (xs ! j))"
proof (induction xs)
  case Nil
  then show ?case by simp
next
  case (Cons x xs)
  show ?case
  proof (cases "xs = []")
    case True
    then show ?thesis by simp
  next
    case False
    from Cons.IH [OF False] obtain k where k: "k < length xs" "hd (sort_key f xs) = xs ! k"
      "\<forall>j < length xs. f (xs ! k) \<le> f (xs ! j)" "\<forall>j < k. f (xs ! k) < f (xs ! j)"
      by blast
    have ne: "sort_key f xs \<noteq> []" using False by (simp add: sort_key_Nil_iff)
    show ?thesis
    proof (cases "f x \<le> f (xs ! k)")
      case True
      have "hd (sort_key f (x # xs)) = x"
        using True k(2) ne by (simp add: hd_insort_key)
      moreover have "\<forall>j < length (x # xs). f x \<le> f ((x # xs) ! j)"
        using True k(3) by (auto simp: nth_Cons split: nat.splits)
      ultimately show ?thesis
        by (intro exI [of _ 0]) simp
    next
      case False
      have "hd (sort_key f (x # xs)) = xs ! k"
        using False k(2) ne by (simp add: hd_insort_key)
      moreover have "\<forall>j < length (x # xs). f (xs ! k) \<le> f ((x # xs) ! j)"
        using False k(3) by (auto simp: nth_Cons split: nat.splits)
      moreover have "\<forall>j < Suc k. f (xs ! k) < f ((x # xs) ! j)"
        using False k(4) by (auto simp: nth_Cons split: nat.splits)
      ultimately show ?thesis
        using k(1) by (intro exI [of _ "Suc k"]) simp
    qed
  qed
qed

lemma top_rated_iff:
  "top_rated vs i \<longleftrightarrow>
     i < length vs \<and> (\<forall>j < length vs. conversionRate (vs ! j) \<le> conversionRate (vs ! i))
     \<and> (\<forall>j < i. conversionRate (vs ! j) < conversionRate (vs ! i))"
  by (auto simp: top_rated_def list_all_iff)

lemma top_rated_unique: "top_rated vs i \<Longrightarrow> top_rated vs k \<Longrightarrow> i = k"
  unfolding top_rated_iff by (metis linorder_neqE_nat not_less)

lemma top_rated_hd:
  assumes "vs \<noteq> []"
  shows "top_rated vs (hd (sorted_positions vs))"
proof -
  have "[0..<length vs] \<noteq> []" using assms by simp
  from hd_sort_key_first_min [OF this, of "\<lambda>i. - conversionRate (vs ! i)"]
  obtain k where k: "k < length vs" "hd (sorted_positions vs) = k"
    "\<forall>j < length vs. conversionRate (vs ! j) \<le> conversionRate (vs ! k)"
    "\<forall>j < k. conversionRate (vs ! j) < conversionRate (vs ! k)"
    by (auto simp: sorted_positions_def)
  then show ?thesis by (simp add: top_rated_iff)
qed

lemma mark_winner_length: "length (mark_winner B vs) = length vs"
  by (simp add: mark_winner_def Let_def)

lemma mark_winner_nth:
  assumes "i < length vs" "\<forall>v \<in> set vs. \<not> isWinner v"
  shows "isWinner (mark_winner B vs ! i) \<longleftrightarrow> top_rated vs i \<and> meets_floor (vs ! i)"
proof -
  have ne: "vs \<noteq> []" using assms(1) by auto
  let ?top = "hd (sorted_positions vs)"
  have t: "top_rated vs ?top" using ne by (rule top_rated_hd)
  then have tl: "?top < length vs" by (simp add: top_rated_iff)
  have nw: "\<not> isWinner (vs ! i)" using assms by simp
  show ?thesis
  proof (cases "i = ?top")
    case True
    then show ?thesis
      using t tl nw ne by (auto simp: mark_winner_def Let_def meets_floor_def)
  next
    case False
    then have "\<not> top_rated vs i" using t top_rated_unique by blast
    then show ?thesis
      using False nw ne by (auto simp: mark_winner_def Let_def)
  qed
qed

text \<open>
  C8, as amended. \<open>getResults\<close> marks a variant as winner exactly when it is the
  first variant holding the highest reported conversion rate of all variants (the
  rate as the double arithmetic gives it, so rates that round to the same double
  tie and the earlier variant is first) and it has at least 100 views and 10
  conversions; when that variant misses the floor, no variant is marked.
\<close>

theorem winner_is_top_rated_over_floor:
  assumes "tests (''abtest:'' @ tid) = Some test" and "i < length (st_variants test)"
  shows "\<exists>res. getResults B tests tid = Some res
      \<and> length (r_variants res) = length (st_variants test)
      \<and> (isWinner (r_variants res ! i) \<longleftrightarrow>
           top_rated (map (result_of B) (st_variants test)) i
           \<and> meets_floor (result_of B (st_variants test ! i)))
      \<and> (\<not> meets_floor (map (result_of B) (st_variants test) ! hd (sorted_positions (map (result_of B) (st_variants test))))
           \<longrightarrow> list_all (\<lambda>v. \<not> isWinner v) (r_variants res))"
proof -
  let ?vs = "map (result_of B) (st_variants test)"
  have nw: "\<forall>v \<in> set ?vs. \<not> isWinner v" by (auto simp: result_of_def)
  have i: "i < length ?vs" using assms(2) by simp
  have r: "getResults B tests tid = Some \<lparr>testId = tid, r_variants = mark_winner B ?vs,
                r_startedAt = startedAt test, r_status = st_status test\<rparr>"
    using assms(1) by (simp add: getResults_def)
  have w: "isWinner (mark_winner B ?vs ! i) \<longleftrightarrow> top_rated ?vs i \<and> meets_floor (?vs ! i)"
    using i nw by (rule mark_winner_nth)
  have n: "list_all (\<lambda>v. \<not> isWinner v) (mark_winner B ?vs)"
    if "\<not> meets_floor (?vs ! hd (sorted_positions ?vs))"
    using that nw i by (auto simp: mark_winner_def Let_def meets_floor_def list_all_iff)
  from r w n i show ?thesis
    by (simp add: mark_winner_length)
qed

theorem winner_is_top_rated_over_floor_witness:
  "\<exists>res. getResults sample_builtins [''abtest:t1'' \<mapsto> stored_test [stored_variant ''A'' 1000 125, stored_variant ''B'' 200 50]] ''t1''
      = Some res
     \<and> length (r_variants res) = 2
     \<and> isWinner (r_variants res ! 1)"
proof -
  let ?test = "stored_test [stored_variant ''A'' 1000 125, stored_variant ''B'' 200 50]"
  let ?tests = "[''abtest:t1'' \<mapsto> ?test]"
  have 1: "?tests (''abtest:'' @ ''t1'') = Some ?test" by simp
  have 2: "1 < length (st_variants ?test)" by (simp add: stored_test_def)
  have 3: "top_rated (map (result_of sample_builtins) (st_variants ?test)) 1"
    by (simp add: top_rated_def stored_test_def stored_variant_def result_of_def sample_builtins_def)
  have 4: "meets_floor (result_of sample_builtins (st_variants ?test ! 1))"
    by (simp add: meets_floor_def stored_test_def stored_variant_def result_of_def sample_builtins_def)
  have 5: "length (st_variants ?test) = 2" by (simp add: stored_test_def)
  from winner_is_top_rated_over_floor [of ?tests "''t1''" ?test 1 sample_builtins] 1 2 3 4 5 show ?thesis
    by auto
qed

text \<open>
  C8 as stated fails: with A at 4 conversions of 8 views and B at 125 of 1000, B is
  the only variant over the floor, so the highest among those over the floor, yet no
  variant is marked, because A has the highest rate of all and misses the floor.
\<close>

theorem winner_claim_counterexample:
  "spec_winner (map (result_of sample_builtins) [stored_variant ''A'' 8 4, stored_variant ''B'' 1000 125]) 1
   \<and> getResults sample_builtins [''abtest:t1'' \<mapsto> stored_test [stored_variant ''A'' 8 4, stored_variant ''B'' 1000 125]] ''t1''
      = Some \<lparr>testId = ''t1'',
               r_variants = [result_of sample_builtins (stored_variant ''A'' 8 4), result_of sample_builtins (stored_variant ''B'' 1000 125)],
               r_startedAt = 0, r_status = Run_running\<rparr>
   \<and> \<not> isWinner (result_of sample_builtins (stored_variant ''B'' 1000 125))"
proof -
  have a: "spec_winner (map (result_of sample_builtins) [stored_variant ''A'' 8 4, stored_variant ''B'' 1000 125]) 1"
    by (simp add: spec_winner_def meets_floor_def result_of_def stored_variant_def sample_builtins_def)
  have s: "sorted_positions (map (result_of sample_builtins) [stored_variant ''A'' 8 4, stored_variant ''B'' 1000 125]) = [0, 1]"
    by (simp add: sorted_positions_def result_of_def stored_variant_def sample_builtins_def upt_rec)
  have m: "mark_winner sample_builtins (map (result_of sample_builtins) [stored_variant ''A'' 8 4, stored_variant ''B'' 1000 125])
      = map (result_of sample_builtins) [stored_variant ''A'' 8 4, stored_variant ''B'' 1000 125]"
    unfolding mark_winner_def s by (simp add: result_of_def stored_variant_def sample_builtins_def)
  have b: "getResults sample_builtins [''abtest:t1'' \<mapsto> stored_test [stored_variant ''A'' 8 4, stored_variant ''B'' 1000 125]] ''t1''
      = Some \<lparr>testId = ''t1'',
               r_variants = [result_of sample_builtins (stored_variant ''A'' 8 4), result_of sample_builtins (stored_variant ''B'' 1000 125)],
               r_startedAt = 0, r_status = Run_running\<rparr>"
    using m by (simp add: getResults_def stored_test_def)
  have c: "\<not> isWinner (result_of sample_builtins (stored_variant ''B'' 1000 125))"
    by (simp add: result_of_def sample_builtins_def)
  from a b c show ?thesis by blast
qed

end
